theory Spec2Isabelle
  imports Complex_Main "HOL-Library.Multiset"
begin

section \<open>Platypus decision-variable types (platypus/types.py)\<close>

text \<open>
  A shallow embedding of the Type variants of \<^verbatim>\<open>platypus/types.py\<close>. Python integers
  are \<open>int\<close>, bit sequences are \<open>bool list\<close>, an exception is the \<open>Inl\<close> branch of a sum.
  A float that an object stores is a \<open>real\<close>: of the stored floats only the order is
  used (the comparisons of \<^verbatim>\<open>max\<close>, \<^verbatim>\<open>min\<close> and \<^verbatim>\<open>spread > 0\<close>), NaN is left out.
  The two places where floating-point arithmetic decides a result are parameters of the
  constructors: the conversion \<^verbatim>\<open>float(v)\<close> and the truncated logarithm
  \<^verbatim>\<open>int(math.log(n, 2))\<close>. A random draw is an explicit argument of \<open>rand\<close>: the
  sample, or the outcome of the shuffle.
\<close>

datatype error = ValueError | TypeError | IndexError | OverflowError

subsection \<open>The bit/Gray codec (platypus/tools.py)\<close>

text \<open>
  \<^verbatim>\<open>types.py\<close> imports \<^verbatim>\<open>bin2gray, bin2int, int2bin, gray2bin\<close> from \<^verbatim>\<open>tools.py\<close>, which
  is not among the sources. The four functions are written from section 4.1 of the
  specification, most significant bit first.
\<close>

text \<open>Modelled from the spec: the bits of \<open>int_to_bits\<close>, the \<open>width\<close> low bits of the value,
  most significant first (the body of the missing \<^verbatim>\<open>tools.int2bin\<close>).\<close>

fun int_bits :: "int \<Rightarrow> nat \<Rightarrow> bool list" where
  "int_bits v 0 = []"
| "int_bits v (Suc w) = int_bits (v div 2) w @ [odd v]"

text \<open>Modelled from the spec: \<open>int_to_bits(value, width)\<close> (the missing \<^verbatim>\<open>tools.int2bin\<close>),
  "returns the width-length boolean sequence representing value. Precondition:
  0 \<le> value < 2^width." \<open>None\<close> is a call outside that precondition, for which the
  specification defines no result.\<close>

definition int2bin :: "int \<Rightarrow> nat \<Rightarrow> bool list option" where
  "int2bin v w = (if 0 \<le> v \<and> v < 2 ^ w then Some (int_bits v w) else None)"

fun bin2int_from :: "int \<Rightarrow> bool list \<Rightarrow> int" where
  "bin2int_from acc [] = acc"
| "bin2int_from acc (b # bs) = bin2int_from (2 * acc + (if b then 1 else 0)) bs"

text \<open>Modelled from the spec: \<open>bits_to_int(bits)\<close> (the missing \<^verbatim>\<open>tools.bin2int\<close>), "inverse
  of the above; total over any bit sequence, returns the non-negative integer it
  encodes."\<close>

definition bin2int :: "bool list \<Rightarrow> int" where
  "bin2int bits = bin2int_from 0 bits"

fun xor_prev :: "bool \<Rightarrow> bool list \<Rightarrow> bool list" where
  "xor_prev prev [] = []"
| "xor_prev prev (b # bs) = (b \<noteq> prev) # xor_prev b bs"

text \<open>Modelled from the spec: \<open>binary_to_gray(bits)\<close> (the missing \<^verbatim>\<open>tools.bin2gray\<close>),
  "output bit 0 equals input bit 0; each subsequent output bit equals the exclusive-or
  of the corresponding input bit and the preceding input bit."\<close>

definition bin2gray :: "bool list \<Rightarrow> bool list" where
  "bin2gray bits = (case bits of [] \<Rightarrow> [] | b # bs \<Rightarrow> b # xor_prev b bs)"

fun xor_acc :: "bool \<Rightarrow> bool list \<Rightarrow> bool list" where
  "xor_acc acc [] = []"
| "xor_acc acc (g # gs) = (g \<noteq> acc) # xor_acc (g \<noteq> acc) gs"

text \<open>Modelled from the spec: \<open>gray_to_bits\<close> (the missing \<^verbatim>\<open>tools.gray2bin\<close>), "a
  prefix-exclusive-or accumulation over the Gray-coded sequence (each output bit equals
  the exclusive-or of itself and all preceding already-recovered output bits, computed
  left to right)."\<close>

definition gray2bin :: "bool list \<Rightarrow> bool list" where
  "gray2bin bits = (case bits of [] \<Rightarrow> [] | g # gs \<Rightarrow> g # xor_acc g gs)"

text \<open>The number of positions at which two bit sequences differ.\<close>

definition hamming :: "bool list \<Rightarrow> bool list \<Rightarrow> nat" where
  "hamming xs ys = length (filter (\<lambda>(x, y). x \<noteq> y) (zip xs ys))"

subsection \<open>Binary and Integer\<close>

record Binary =
  nbits :: int

text \<open>\<^verbatim>\<open>Binary.__init__\<close> stores \<^verbatim>\<open>nbits\<close> as it comes.\<close>

definition Binary_init :: "int \<Rightarrow> error + Binary" where
  "Binary_init n = Inr \<lparr>nbits = n\<rparr>"

record Integer = Binary +
  min_value :: int
  max_value :: int

text \<open>
  The exact floor of the binary logarithm of a positive integer, the
  \<open>floor(log2(max_value - min_value))\<close> of the specification.
\<close>

fun ilog2 :: "nat \<Rightarrow> nat" where
  "ilog2 n = (if n < 2 then 0 else Suc (ilog2 (n div 2)))"

declare ilog2.simps [simp del]

definition exact_log2 :: "int \<Rightarrow> nat" where
  "exact_log2 n = ilog2 (nat n)"

text \<open>
  \<^verbatim>\<open>Integer.__init__\<close>, for bounds that are Python integers (on which \<^verbatim>\<open>int()\<close> is the
  identity). \<^verbatim>\<open>math.log\<close> raises ValueError on an argument that is not positive. The
  parameter \<open>math_log2 n\<close> stands for \<^verbatim>\<open>int(math.log(n, 2))\<close> at a positive \<open>n\<close>: the
  quotient of two double-precision logarithms, truncated; it is not negative, as no
  logarithm of a number from 1 on is. Where the quotient is not rounded across an integer
  it is \<open>exact_log2 n\<close>, as at \<open>n = 4\<close> (\<^verbatim>\<open>math.log(4, 2)\<close> is \<^verbatim>\<open>2.0\<close>). CPython gives 48
  at \<open>n = 2^48 - 1\<close>, where \<open>exact_log2 n = 47\<close>, and 2954 at \<open>n = 2^2955\<close>, where
  \<open>exact_log2 n = 2955\<close>.
\<close>

definition Integer_init :: "(int \<Rightarrow> nat) \<Rightarrow> int \<Rightarrow> int \<Rightarrow> error + Integer" where
  "Integer_init math_log2 lo hi =
     (if hi - lo \<le> 0 then Inl ValueError
      else Inr \<lparr>nbits = int (math_log2 (hi - lo)) + 1, Integer.min_value = lo,
            Integer.max_value = hi\<rparr>)"

text \<open>\<^verbatim>\<open>Integer.encode\<close>: \<^verbatim>\<open>bin2gray(int2bin(value - self.min_value, self.nbits))\<close>.\<close>

definition Integer_encode :: "Integer \<Rightarrow> int \<Rightarrow> bool list option" where
  "Integer_encode T v =
     map_option bin2gray (int2bin (v - Integer.min_value T) (nat (nbits T)))"

text \<open>\<^verbatim>\<open>Integer.decode\<close>.\<close>

definition Integer_decode :: "Integer \<Rightarrow> bool list \<Rightarrow> int" where
  "Integer_decode T bits =
     (let v = bin2int (gray2bin bits);
          v' = (if v > Integer.max_value T - Integer.min_value T
                then v - (Integer.max_value T - Integer.min_value T) else v)
      in Integer.min_value T + v')"

subsection \<open>Real, Real_Normal and Real_T\<close>

record Real =
  min_value :: real
  max_value :: real

text \<open>
  \<^verbatim>\<open>Real.__init__\<close> stores \<^verbatim>\<open>float(min_value)\<close> and \<^verbatim>\<open>float(max_value)\<close>, converted
  in this order; there is no other statement in it. The parameter \<open>to_float v\<close> stands
  for the builtin \<^verbatim>\<open>float(v)\<close> on whatever value \<open>v\<close> the caller passes: the double nearest
  to a number (\<^verbatim>\<open>float(2**53 + 1)\<close> is \<^verbatim>\<open>2.0**53\<close>), OverflowError on an integer beyond
  the doubles, ValueError on a string that is no number, TypeError on \<^verbatim>\<open>None\<close>. On a
  value that is a float already it returns that value: the instance \<open>Inr\<close> on \<open>real\<close>.
\<close>

definition Real_init :: "('v \<Rightarrow> error + real) \<Rightarrow> 'v \<Rightarrow> 'v \<Rightarrow> error + Real" where
  "Real_init to_float lo hi =
     (case to_float lo of
        Inl e \<Rightarrow> Inl e
      | Inr a \<Rightarrow>
          (case to_float hi of
             Inl e \<Rightarrow> Inl e
           | Inr b \<Rightarrow> Inr \<lparr>Real.min_value = a, max_value = b\<rparr>))"

text \<open>The \<^verbatim>\<open>clamp\<close> attribute is \<^verbatim>\<open>None\<close> (the default of the constructor) or a
  sequence, of which \<^verbatim>\<open>rand\<close> reads the truth value of element 0.\<close>

record Real_Normal =
  min_value :: real
  max_value :: real
  default_value :: real
  spread :: real
  clamp :: "bool list option"

text \<open>\<^verbatim>\<open>Real_Normal.__init__(min_value, max_value, default_value, spread=5, clamp=None)\<close>:
  the three bounds go through \<^verbatim>\<open>float()\<close> in this order, \<^verbatim>\<open>spread\<close> and \<^verbatim>\<open>clamp\<close>
  are stored as they come.\<close>

definition Real_Normal_init ::
  "('v \<Rightarrow> error + real) \<Rightarrow> 'v \<Rightarrow> 'v \<Rightarrow> 'v \<Rightarrow> real \<Rightarrow> bool list option
     \<Rightarrow> error + Real_Normal" where
  "Real_Normal_init to_float lo hi dv sp cl =
     (case to_float lo of
        Inl e \<Rightarrow> Inl e
      | Inr a \<Rightarrow>
          (case to_float hi of
             Inl e \<Rightarrow> Inl e
           | Inr b \<Rightarrow>
               (case to_float dv of
                  Inl e \<Rightarrow> Inl e
                | Inr d \<Rightarrow>
                    Inr \<lparr>Real_Normal.min_value = a, max_value = b, default_value = d,
                         spread = sp, clamp = cl\<rparr>)))"

text \<open>
  \<^verbatim>\<open>Real_Normal.rand\<close>; \<open>draw\<close> is the sample \<^verbatim>\<open>float(np.random.normal(default_value,
  spread, 1))\<close>. The condition \<^verbatim>\<open>self.spread > 0 and not self.clamp[0]\<close> evaluates
  \<^verbatim>\<open>self.clamp[0]\<close> only when \<^verbatim>\<open>self.spread > 0\<close>; subscripting \<^verbatim>\<open>None\<close> raises
  TypeError, subscripting an empty sequence raises IndexError.
\<close>

definition Real_Normal_rand :: "Real_Normal \<Rightarrow> real \<Rightarrow> error + real" where
  "Real_Normal_rand T draw =
     (if spread T > 0 then
        (case clamp T of
           None \<Rightarrow> Inl TypeError
         | Some [] \<Rightarrow> Inl IndexError
         | Some (c # _) \<Rightarrow>
             if \<not> c
             then Inr (min (max draw (Real_Normal.min_value T)) (Real_Normal.max_value T))
             else Inr (Real_Normal.default_value T))
      else Inr (Real_Normal.default_value T))"

record Real_T =
  min_value :: real
  max_value :: real
  default_value :: real

text \<open>\<^verbatim>\<open>Real_T.__init__\<close>: the three arguments go through \<^verbatim>\<open>float()\<close> in this order.\<close>

definition Real_T_init :: "('v \<Rightarrow> error + real) \<Rightarrow> 'v \<Rightarrow> 'v \<Rightarrow> 'v \<Rightarrow> error + Real_T" where
  "Real_T_init to_float lo hi dv =
     (case to_float lo of
        Inl e \<Rightarrow> Inl e
      | Inr a \<Rightarrow>
          (case to_float hi of
             Inl e \<Rightarrow> Inl e
           | Inr b \<Rightarrow>
               (case to_float dv of
                  Inl e \<Rightarrow> Inl e
                | Inr d \<Rightarrow>
                    Inr \<lparr>Real_T.min_value = a, max_value = b, default_value = d\<rparr>)))"

text \<open>\<^verbatim>\<open>Real_T.rand\<close>; \<open>t\<close> is the sample \<^verbatim>\<open>np.random.standard_t(df=5)\<close>.\<close>

definition Real_T_rand :: "Real_T \<Rightarrow> real \<Rightarrow> real" where
  "Real_T_rand T t =
     min (max (t + Real_T.default_value T) (Real_T.min_value T)) (Real_T.max_value T)"

subsection \<open>Subset\<close>

text \<open>The attribute \<^verbatim>\<open>size\<close> is the field \<open>size_field\<close>. The constructor is given a
  sequence, of which \<^verbatim>\<open>list(elements)\<close> is a copy, and stores \<^verbatim>\<open>size\<close> as it comes.\<close>

record 'a Subset =
  elements :: "'a list"
  size_field :: int

definition Subset_init :: "'a list \<Rightarrow> int \<Rightarrow> error + 'a Subset" where
  "Subset_init es k = Inr \<lparr>elements = es, size_field = k\<rparr>"

text \<open>The slice \<^verbatim>\<open>xs[:k]\<close>: the first \<open>k\<close> elements, all of them when there are fewer;
  a negative \<open>k\<close> counts from the end.\<close>

definition slice_to :: "'a list \<Rightarrow> int \<Rightarrow> 'a list" where
  "slice_to xs k = (if 0 \<le> k then take (nat k) xs else take (nat (int (length xs) + k)) xs)"

text \<open>\<^verbatim>\<open>list(range(1, len(self.elements)))\<close>.\<close>

definition Subset_indices :: "'a Subset \<Rightarrow> nat list" where
  "Subset_indices T = [1..<length (elements T)]"

text \<open>What \<^verbatim>\<open>random.shuffle\<close> can leave in place of a list: any rearrangement of it.\<close>

definition shuffle_of :: "nat list \<Rightarrow> nat list \<Rightarrow> bool" where
  "shuffle_of xs shuffled \<longleftrightarrow> mset shuffled = mset xs"

text \<open>\<^verbatim>\<open>indices[:self.size]\<close>, where \<open>shuffled\<close> is \<^verbatim>\<open>indices\<close> after the shuffle.\<close>

definition Subset_selected :: "'a Subset \<Rightarrow> nat list \<Rightarrow> nat list" where
  "Subset_selected T shuffled = slice_to shuffled (size_field T)"

text \<open>\<^verbatim>\<open>Subset.rand\<close>. Every index of a shuffle of \<open>Subset_indices T\<close> is below
  \<open>length (elements T)\<close> (lemma \<open>Subset_selected_in_range\<close>), so \<^verbatim>\<open>self.elements[i]\<close>
  does not raise.\<close>

definition Subset_rand :: "'a Subset \<Rightarrow> nat list \<Rightarrow> 'a list" where
  "Subset_rand T shuffled = map (\<lambda>i. elements T ! i) (Subset_selected T shuffled)"

section \<open>The codec\<close>

lemma length_int_bits [simp]: "length (int_bits v w) = w"
  by (induction w arbitrary: v) auto

lemma bin2int_from_snoc:
  "bin2int_from acc (bs @ [b]) = 2 * bin2int_from acc bs + (if b then 1 else 0)"
  by (induction bs arbitrary: acc) auto

lemma bin2int_int_bits:
  "0 \<le> v \<Longrightarrow> v < 2 ^ w \<Longrightarrow> bin2int_from 0 (int_bits v w) = v"
proof (induction w arbitrary: v)
  case 0
  then show ?case by simp
next
  case (Suc w)
  have "0 \<le> v div 2" "v div 2 < 2 ^ w"
    using Suc.prems by auto
  then have "bin2int_from 0 (int_bits (v div 2) w) = v div 2"
    by (rule Suc.IH)
  then show ?case
    by (simp add: bin2int_from_snoc)
qed

lemma bin2int_from_bounds:
  "0 \<le> acc \<Longrightarrow> 0 \<le> bin2int_from acc bs \<and> bin2int_from acc bs < (acc + 1) * 2 ^ length bs"
proof (induction bs arbitrary: acc)
  case Nil
  then show ?case by simp
next
  case (Cons b bs)
  define a where "a = 2 * acc + (if b then 1 else 0)"
  have a: "0 \<le> a" "a + 1 \<le> 2 * (acc + 1)"
    using Cons.prems by (simp_all add: a_def)
  have step: "bin2int_from acc (b # bs) = bin2int_from a bs"
    by (simp add: a_def)
  from Cons.IH [OF a(1)]
  have ih: "0 \<le> bin2int_from a bs" "bin2int_from a bs < (a + 1) * 2 ^ length bs"
    by simp_all
  have "(a + 1) * (2::int) ^ length bs \<le> (2 * (acc + 1)) * 2 ^ length bs"
    using a(2) by (rule mult_right_mono) simp
  also have "\<dots> = (acc + 1) * 2 ^ length (b # bs)"
    by simp
  finally have "bin2int_from a bs < (acc + 1) * 2 ^ length (b # bs)"
    using ih(2) by linarith
  with ih(1) show ?case
    by (simp only: step)
qed

lemma bin2int_bounds: "0 \<le> bin2int bs \<and> bin2int bs < 2 ^ length bs"
  using bin2int_from_bounds [of 0 bs] by (simp add: bin2int_def)

lemma bin2gray_xor_prev: "bin2gray bs = xor_prev False bs"
  by (cases bs) (simp_all add: bin2gray_def)

lemma gray2bin_xor_acc: "gray2bin gs = xor_acc False gs"
  by (cases gs) (simp_all add: gray2bin_def)

lemma length_xor_prev [simp]: "length (xor_prev p bs) = length bs"
  by (induction bs arbitrary: p) auto

lemma length_xor_acc [simp]: "length (xor_acc a gs) = length gs"
  by (induction gs arbitrary: a) auto

lemma xor_acc_xor_prev: "xor_acc p (xor_prev p bs) = bs"
proof (induction bs arbitrary: p)
  case Nil
  show ?case by simp
next
  case (Cons b bs)
  have "((b \<noteq> p) \<noteq> p) = b"
    by (cases b; cases p) simp_all
  then show ?case
    by (simp add: Cons.IH)
qed

lemma gray2bin_bin2gray: "gray2bin (bin2gray bs) = bs"
  by (simp add: bin2gray_xor_prev gray2bin_xor_acc xor_acc_xor_prev)

lemma length_bin2gray [simp]: "length (bin2gray bs) = length bs"
  by (simp add: bin2gray_xor_prev)

lemma length_gray2bin [simp]: "length (gray2bin gs) = length gs"
  by (simp add: gray2bin_xor_acc)

section \<open>The width of an Integer\<close>

lemma ilog2_bounds: "0 < n \<Longrightarrow> 2 ^ ilog2 n \<le> n \<and> n < 2 ^ Suc (ilog2 n)"
proof (induction n rule: ilog2.induct)
  case (1 n)
  show ?case
  proof (cases "n < 2")
    case True
    with "1.prems" show ?thesis by (simp add: ilog2.simps [of n])
  next
    case False
    then have "0 < n div 2" by simp
    with "1.IH" False have "2 ^ ilog2 (n div 2) \<le> n div 2 \<and> n div 2 < 2 ^ Suc (ilog2 (n div 2))"
      by simp
    with False show ?thesis
      by (simp add: ilog2.simps [of n]) linarith
  qed
qed

lemma Integer_init_fields:
  assumes "Integer_init ml lo hi = Inr T"
  shows "lo < hi" "Integer.min_value T = lo" "Integer.max_value T = hi"
    "nbits T = int (ml (hi - lo)) + 1"
  using assms by (auto simp: Integer_init_def split: if_splits)

text \<open>
  The constructor's width, where the truncated floating-point logarithm is the exact
  one: \<open>nbits\<close> is the least width that holds every offset up to
  \<open>max_value - min_value\<close>.
\<close>

lemma Integer_init_exact_width:
  assumes "Integer_init ml lo hi = Inr T" "ml (hi - lo) = exact_log2 (hi - lo)"
  shows "2 ^ (nat (nbits T) - 1) \<le> Integer.max_value T - Integer.min_value T"
    "Integer.max_value T - Integer.min_value T < 2 ^ nat (nbits T)"
proof -
  have pos: "0 < nat (hi - lo)"
    using Integer_init_fields(1) [OF assms(1)] by simp
  have w: "nat (nbits T) = Suc (ilog2 (nat (hi - lo)))"
    using Integer_init_fields(4) [OF assms(1)] assms(2) by (simp add: exact_log2_def)
  from ilog2_bounds [OF pos]
  have "int (2 ^ ilog2 (nat (hi - lo))) \<le> int (nat (hi - lo))"
    "int (nat (hi - lo)) < int (2 ^ Suc (ilog2 (nat (hi - lo))))"
    by (simp_all only: of_nat_le_iff of_nat_less_iff)
  then show "2 ^ (nat (nbits T) - 1) \<le> Integer.max_value T - Integer.min_value T"
    "Integer.max_value T - Integer.min_value T < 2 ^ nat (nbits T)"
    using pos by (simp_all add: w Integer_init_fields(2,3) [OF assms(1)])
qed

lemma Integer_0_4:
  "Integer_init exact_log2 0 4 =
     Inr \<lparr>nbits = 3, Integer.min_value = 0, Integer.max_value = 4\<rparr>"
proof -
  have "ilog2 4 = 2" by code_simp
  then show ?thesis
    by (simp add: Integer_init_def exact_log2_def)
qed

section \<open>Integer: round trip\<close>

lemma Integer_encode_in_range:
  assumes "Integer.min_value T \<le> v" "v - Integer.min_value T < 2 ^ nat (nbits T)"
  shows "Integer_encode T v =
           Some (bin2gray (int_bits (v - Integer.min_value T) (nat (nbits T))))"
  using assms by (simp add: Integer_encode_def int2bin_def)

lemma Integer_decode_encoded:
  assumes "0 \<le> off" "off < 2 ^ nat (nbits T)"
  shows "Integer_decode T (bin2gray (int_bits off (nat (nbits T)))) =
           Integer.min_value T +
             (if off > Integer.max_value T - Integer.min_value T
              then off - (Integer.max_value T - Integer.min_value T) else off)"
proof -
  have "bin2int (gray2bin (bin2gray (int_bits off (nat (nbits T))))) = off"
    using assms by (simp add: gray2bin_bin2gray bin2int_def bin2int_int_bits)
  then show ?thesis
    by (simp add: Integer_decode_def)
qed




section \<open>Integer(0, 4)\<close>

text \<open>
  C2, as stated, at the first of the unused patterns: the pattern whose Gray-decoded value
  is 5 is \<open>[True, True, True]\<close>, and \<open>decode\<close> maps it to \<open>5 - (4 - 0) = 1\<close>, not to 0.
  (\<^verbatim>\<open>math.log(4, 2)\<close> is \<^verbatim>\<open>2.0\<close>, the exact logarithm.)
\<close>

theorem Integer_0_4_wrap_counterexample:
  "Integer_init exact_log2 0 4 =
     Inr \<lparr>nbits = 3, Integer.min_value = 0, Integer.max_value = 4\<rparr> \<and>
   bin2int (gray2bin [True, True, True]) = 5 \<and>
   Integer_decode \<lparr>nbits = 3, Integer.min_value = 0, Integer.max_value = 4\<rparr>
     [True, True, True] = 1 \<and>
   Integer_decode \<lparr>nbits = 3, Integer.min_value = 0, Integer.max_value = 4\<rparr>
     [True, True, True] \<noteq> 0"
  by (simp add: Integer_0_4 Integer_decode_def bin2int_def gray2bin_def)

text \<open>
  C2, amended. \<open>Integer(0, 4)\<close> has \<open>nbits = 3\<close>; each of the values 0 to 4 is encoded and
  decoded back to itself; the three unused patterns, whose Gray-decoded values are 5, 6
  and 7, decode by the wrap rule to 1, 2 and 3.
\<close>

theorem Integer_0_4_scenario:
  "Integer_init exact_log2 0 4 =
     Inr \<lparr>nbits = 3, Integer.min_value = 0, Integer.max_value = 4\<rparr> \<and>
   map (\<lambda>v. map_option
               (Integer_decode \<lparr>nbits = 3, Integer.min_value = 0, Integer.max_value = 4\<rparr>)
               (Integer_encode \<lparr>nbits = 3, Integer.min_value = 0, Integer.max_value = 4\<rparr> v))
       [0, 1, 2, 3, 4] = [Some 0, Some 1, Some 2, Some 3, Some 4] \<and>
   map (\<lambda>bits. bin2int (gray2bin bits))
       [[True, True, True], [True, False, True], [True, False, False]] = [5, 6, 7] \<and>
   map (Integer_decode \<lparr>nbits = 3, Integer.min_value = 0, Integer.max_value = 4\<rparr>)
       [[True, True, True], [True, False, True], [True, False, False]] = [1, 2, 3]"
  by (simp add: Integer_0_4 Integer_decode_def Integer_encode_def int2bin_def bin2int_def
      gray2bin_def bin2gray_def numeral_3_eq_3)

section \<open>Integer: decode on every bit sequence\<close>

text \<open>
  Where the width is the exact one, \<open>2 ^ (nbits - 1) \<le> max_value - min_value\<close>, \<open>decode\<close>
  maps every bit sequence of length \<open>nbits\<close> into the range, and a wrapped offset lands
  strictly inside it.
\<close>

lemma Integer_decode_exact_width:
  assumes "0 < nbits T" "2 ^ (nat (nbits T) - 1) \<le> Integer.max_value T - Integer.min_value T"
    "int (length bits) = nbits T"
  shows "Integer.min_value T \<le> Integer_decode T bits"
    "Integer_decode T bits \<le> Integer.max_value T"
proof -
  define v where "v = bin2int (gray2bin bits)"
  define n where "n = Integer.max_value T - Integer.min_value T"
  have len: "nat (nbits T) = length bits"
    using assms(3) by simp
  have v: "0 \<le> v" "v < 2 ^ nat (nbits T)"
    using bin2int_bounds [of "gray2bin bits"] by (simp_all add: v_def len)
  have "(2::int) ^ nat (nbits T) = 2 * 2 ^ (nat (nbits T) - 1)"
    using assms(1) by (cases "nat (nbits T)") simp_all
  then have w: "2 ^ nat (nbits T) \<le> 2 * n"
    using assms(2) by (simp add: n_def)
  have d: "Integer_decode T bits = Integer.min_value T + (if v > n then v - n else v)"
    by (simp add: Integer_decode_def v_def n_def Let_def)
  show "Integer.min_value T \<le> Integer_decode T bits"
    using v(1) by (simp add: d)
  show "Integer_decode T bits \<le> Integer.max_value T"
    using v(2) w by (simp add: d n_def)
qed

lemma xor_acc_replicate_False: "xor_acc True (replicate k False) = replicate k True"
  by (induction k) simp_all

lemma bin2int_from_replicate_True:
  "bin2int_from acc (replicate k True) = (acc + 1) * 2 ^ k - 1"
  by (induction k arbitrary: acc) (simp_all add: algebra_simps)

text \<open>
  C3, at \<open>Integer(0, 2^48 - 1)\<close> and the 49-bit sequence \<open>[True, False, ..., False]\<close>. The
  constructor takes \<^verbatim>\<open>int(math.log(2**48 - 1, 2))\<close>, which is 48 in double precision
  (\<^verbatim>\<open>math.log\<close> returns \<^verbatim>\<open>48.0\<close>), and builds 49 bits where 48 hold the range. The
  sequence Gray-decodes to \<open>2^49 - 1\<close>, the wrap subtracts \<open>2^48 - 1\<close>, and \<open>decode\<close>
  returns \<open>2^48\<close>, which is \<open>max_value + 1\<close>.
\<close>

theorem Integer_decode_out_of_range:
  "Integer_init (\<lambda>n. 48) 0 (2 ^ 48 - 1) =
     Inr \<lparr>nbits = 49, Integer.min_value = 0, Integer.max_value = 2 ^ 48 - 1\<rparr> \<and>
   int (length (True # replicate 48 False)) = 49 \<and>
   bin2int (gray2bin (True # replicate 48 False)) = 2 ^ 49 - 1 \<and>
   Integer_decode \<lparr>nbits = 49, Integer.min_value = 0, Integer.max_value = 2 ^ 48 - 1\<rparr>
     (True # replicate 48 False) = 2 ^ 48 \<and>
   (2::int) ^ 48 > 2 ^ 48 - 1"
proof -
  have g: "bin2int (gray2bin (True # replicate 48 False)) = 2 ^ 49 - 1"
    by (simp add: gray2bin_def bin2int_def xor_acc_replicate_False
        bin2int_from_replicate_True)
  show ?thesis
    by (simp add: g Integer_init_def Integer_decode_def)
qed

section \<open>Integer: neighbours differ in one bit\<close>




lemma hamming_same [simp]: "hamming xs xs = 0"
  by (induction xs) (simp_all add: hamming_def)





section \<open>Integer: encode above the range\<close>

text \<open>
  C5, as stated, at \<open>Integer(0, 4)\<close> and the value 5: the offset 5 exceeds
  \<open>max_value - min_value = 4\<close>, yet \<open>encode\<close> returns a bit sequence, which \<open>decode\<close> maps
  to 1.
\<close>

theorem Integer_encode_counterexample:
  "Integer_init exact_log2 0 4 =
     Inr \<lparr>nbits = 3, Integer.min_value = 0, Integer.max_value = 4\<rparr> \<and>
   (5::int) - 0 > 4 - 0 \<and>
   Integer_encode \<lparr>nbits = 3, Integer.min_value = 0, Integer.max_value = 4\<rparr> 5
     = Some [True, True, True] \<and>
   Integer_decode \<lparr>nbits = 3, Integer.min_value = 0, Integer.max_value = 4\<rparr>
     [True, True, True] = 1"
  by (simp add: Integer_0_4 Integer_decode_def Integer_encode_def int2bin_def bin2int_def
      gray2bin_def bin2gray_def numeral_3_eq_3)

text \<open>
  C5, amended. \<open>encode\<close> checks no range of its own. For a value above \<open>max_value\<close> whose
  offset is still below \<open>2 ^ nbits\<close> it returns a bit sequence of length \<open>nbits\<close>, and
  \<open>decode\<close> maps that sequence to the value less \<open>max_value - min_value\<close>. This holds
  for every Integer the constructor builds, whatever \<^verbatim>\<open>int(math.log(n, 2))\<close> is.
\<close>

theorem Integer_encode_above_max:
  assumes "Integer_init ml lo hi = Inr T" "hi < v" "v - lo < 2 ^ nat (nbits T)"
  shows "\<exists>e. Integer_encode T v = Some e \<and> int (length e) = nbits T \<and>
           Integer_decode T e = v - (hi - lo)"
proof -
  note f = Integer_init_fields [OF assms(1)]
  have r: "0 \<le> v - lo"
    using f(1) assms(2) by simp
  have pos: "0 \<le> nbits T"
    using f(4) by simp
  have e: "Integer_encode T v = Some (bin2gray (int_bits (v - lo) (nat (nbits T))))"
    using Integer_encode_in_range [of T v] r assms(3) by (simp add: f(2))
  have "Integer_decode T (bin2gray (int_bits (v - lo) (nat (nbits T)))) = v - (hi - lo)"
    using assms(2) by (simp add: Integer_decode_encoded [OF r assms(3)] f(2,3))
  with e pos show ?thesis by simp
qed

theorem Integer_encode_above_max_witness:
  "Integer_init exact_log2 0 4 =
     Inr \<lparr>nbits = 3, Integer.min_value = 0, Integer.max_value = 4\<rparr> \<and>
   (4::int) < 6 \<and>
   (\<exists>e. Integer_encode \<lparr>nbits = 3, Integer.min_value = 0, Integer.max_value = 4\<rparr> 6 = Some e \<and>
      int (length e) = 3 \<and>
      Integer_decode \<lparr>nbits = 3, Integer.min_value = 0, Integer.max_value = 4\<rparr> e = 2)"
proof -
  have i: "Integer_init exact_log2 0 4 =
      Inr \<lparr>nbits = 3, Integer.min_value = 0, Integer.max_value = 4\<rparr>"
    by (rule Integer_0_4)
  show ?thesis
    using i Integer_encode_above_max [OF i, of 6] by simp
qed

section \<open>Real_Normal and Real_T: the order of the clamps\<close>

text \<open>
  C6, as stated, at a Real_T with \<open>min_value = 10 > max_value = 0\<close> and the sample 5:
  \<open>max\<close> lifts the value to 10 and \<open>min\<close> then lowers it to 0, so \<open>rand\<close> returns
  \<open>max_value\<close>, not \<open>min_value\<close>.
\<close>

theorem clamp_order_counterexample:
  "Real_T.min_value \<lparr>Real_T.min_value = 10, max_value = 0, default_value = 0\<rparr>
     > Real_T.max_value \<lparr>Real_T.min_value = 10, max_value = 0, default_value = 0\<rparr> \<and>
   Real_T_rand \<lparr>Real_T.min_value = 10, max_value = 0, default_value = 0\<rparr> 5 = 0 \<and>
   Real_T_rand \<lparr>Real_T.min_value = 10, max_value = 0, default_value = 0\<rparr> 5
     \<noteq> Real_T.min_value \<lparr>Real_T.min_value = 10, max_value = 0, default_value = 0\<rparr>"
  by (simp add: Real_T_rand_def)

text \<open>
  C6, amended. For Real_Normal with the noise active (\<open>spread > 0\<close> and element 0 of
  \<open>clamp\<close> false) and for Real_T, \<open>rand\<close> clamps the drawn value to \<open>min_value\<close> first and
  then to \<open>max_value\<close>; when \<open>min_value > max_value\<close> the result is \<open>max_value\<close>, and no
  error.
\<close>

theorem clamp_min_then_max:
  assumes "spread N > 0" "clamp N = Some (False # cs)"
  shows "Real_Normal_rand N draw =
           Inr (min (max draw (Real_Normal.min_value N)) (Real_Normal.max_value N)) \<and>
         Real_T_rand T t =
           min (max (t + Real_T.default_value T) (Real_T.min_value T)) (Real_T.max_value T) \<and>
         (Real_Normal.min_value N > Real_Normal.max_value N \<longrightarrow>
            Real_Normal_rand N draw = Inr (Real_Normal.max_value N)) \<and>
         (Real_T.min_value T > Real_T.max_value T \<longrightarrow>
            Real_T_rand T t = Real_T.max_value T)"
  using assms by (auto simp: Real_Normal_rand_def Real_T_rand_def)

theorem clamp_min_then_max_witness:
  "spread \<lparr>Real_Normal.min_value = 10, max_value = 0, default_value = 3, spread = 5,
            clamp = Some [False, False]\<rparr> > 0 \<and>
   clamp \<lparr>Real_Normal.min_value = 10, max_value = 0, default_value = 3, spread = 5,
            clamp = Some [False, False]\<rparr> = Some (False # [False]) \<and>
   (10::real) > 0 \<and>
   Real_Normal_rand \<lparr>Real_Normal.min_value = 10, max_value = 0, default_value = 3, spread = 5,
            clamp = Some [False, False]\<rparr> 4 = Inr 0 \<and>
   Real_T_rand \<lparr>Real_T.min_value = 10, max_value = 0, default_value = 3\<rparr> 1 = 0"
proof -
  let ?N = "\<lparr>Real_Normal.min_value = 10, max_value = 0, default_value = 3, spread = 5,
            clamp = Some [False, False]\<rparr>"
  let ?T = "\<lparr>Real_T.min_value = 10, max_value = 0, default_value = 3\<rparr>"
  have s: "spread ?N > 0" by simp
  have c: "clamp ?N = Some (False # [False])" by simp
  show ?thesis
    using clamp_min_then_max [OF s c, of 4 ?T 1] by simp
qed

section \<open>Subset\<close>

lemma set_slice_to: "set (slice_to xs k) \<subseteq> set xs"
  by (auto simp: slice_to_def dest: in_set_takeD)

lemma shuffle_of_set: "shuffle_of xs shuffled \<Longrightarrow> set shuffled = set xs"
  by (auto simp: shuffle_of_def dest: mset_eq_setD)

lemma Subset_selected_in_range:
  "shuffle_of (Subset_indices T) shuffled \<Longrightarrow> i \<in> set (Subset_selected T shuffled) \<Longrightarrow>
   0 < i \<and> i < length (elements T)"
  using set_slice_to [of shuffled "size_field T"] shuffle_of_set [of "Subset_indices T" shuffled]
  by (auto simp: Subset_selected_def Subset_indices_def)

text \<open>
  C7, at \<open>Subset(['a', 'b'], 2)\<close>, where \<open>0 \<le> size \<le> len(elements)\<close>: the index list is
  \<open>[1]\<close>, its only shuffle is \<open>[1]\<close>, and \<open>rand\<close> returns the one element \<open>'b'\<close> where the
  claim has two elements.
\<close>

theorem Subset_rand_short:
  "Subset_init ''ab'' 2 = Inr \<lparr>elements = ''ab'', size_field = 2\<rparr> \<and>
   (0::int) \<le> 2 \<and> (2::int) \<le> int (length ''ab'') \<and>
   Subset_indices \<lparr>elements = ''ab'', size_field = 2\<rparr> = [1] \<and>
   shuffle_of (Subset_indices \<lparr>elements = ''ab'', size_field = 2\<rparr>) [1] \<and>
   Subset_rand \<lparr>elements = ''ab'', size_field = 2\<rparr> [1] = ''b'' \<and>
   length (Subset_rand \<lparr>elements = ''ab'', size_field = 2\<rparr> [1]) \<noteq> 2"
  by (simp add: Subset_init_def Subset_indices_def shuffle_of_def Subset_rand_def
      Subset_selected_def slice_to_def)

text \<open>
  C8. For every Subset and every outcome of the shuffle, index 0 is not among the
  indices that \<open>rand\<close> selects: the first element of \<open>elements\<close> is never chosen by
  position.
\<close>

theorem Subset_rand_never_first:
  assumes "shuffle_of (Subset_indices T) shuffled"
  shows "0 \<notin> set (Subset_selected T shuffled)"
  using Subset_selected_in_range [OF assms, of 0] by auto

theorem Subset_rand_never_first_witness:
  "shuffle_of (Subset_indices \<lparr>elements = ''abc'', size_field = 2\<rparr>) [2, 1] \<and>
   Subset_selected \<lparr>elements = ''abc'', size_field = 2\<rparr> [2, 1] = [2, 1] \<and>
   0 \<notin> set (Subset_selected \<lparr>elements = ''abc'', size_field = 2\<rparr> [2, 1])"
proof -
  have s: "shuffle_of (Subset_indices \<lparr>elements = ''abc'', size_field = 2\<rparr>) [2, 1]"
    by (simp add: shuffle_of_def Subset_indices_def upt_rec)
  have t: "Subset_selected \<lparr>elements = ''abc'', size_field = 2\<rparr> [2, 1] = [2, 1]"
    by (simp add: Subset_selected_def slice_to_def)
  show ?thesis
    using s t Subset_rand_never_first [OF s] by simp
qed

section \<open>Construction\<close>

text \<open>
  C9, as stated, at \<open>Real(1.0, 0.0)\<close>, \<open>Binary(0)\<close> and \<open>Subset(['a', 'b'], 5)\<close>: bounds out
  of order, a bit width that is not positive and a size beyond the elements are all
  accepted. (The bounds are floats, which \<^verbatim>\<open>float()\<close> returns as they are.)
\<close>

theorem construction_counterexample:
  "(1::real) > 0 \<and> Real_init Inr (1::real) 0 = Inr \<lparr>Real.min_value = 1, max_value = 0\<rparr> \<and>
   (0::int) \<le> 0 \<and> Binary_init 0 = Inr \<lparr>nbits = 0\<rparr> \<and>
   (5::int) > int (length ''ab'') \<and>
   Subset_init ''ab'' 5 = Inr \<lparr>elements = ''ab'', size_field = 5\<rparr>"
  by (simp add: Real_init_def Binary_init_def Subset_init_def)

text \<open>
  C9, amended. Construction validates neither the order of the bounds nor the bit width
  nor the size: whenever \<^verbatim>\<open>float()\<close> converts the arguments, Real, Real_Normal and
  Real_T are constructed with \<open>min_value > max_value\<close>; Binary is constructed with an
  \<open>nbits\<close> that is not positive; Subset is constructed with a size below 0 or above
  \<open>len(elements)\<close>.
\<close>

theorem construction_accepts_invalid:
  assumes "to_float lo = Inr a" "to_float hi = Inr b" "to_float dv = Inr d"
    "b < a" "n \<le> 0" "k < 0 \<or> int (length es) < k"
  shows "Real_init to_float lo hi = Inr \<lparr>Real.min_value = a, max_value = b\<rparr> \<and>
         Real_Normal_init to_float lo hi dv sp cl =
           Inr \<lparr>Real_Normal.min_value = a, max_value = b, default_value = d, spread = sp,
                clamp = cl\<rparr> \<and>
         Real_T_init to_float lo hi dv =
           Inr \<lparr>Real_T.min_value = a, max_value = b, default_value = d\<rparr> \<and>
         Binary_init n = Inr \<lparr>nbits = n\<rparr> \<and>
         Subset_init es k = Inr \<lparr>elements = es, size_field = k\<rparr>"
  using assms(1-3)
  by (simp add: Real_init_def Real_Normal_init_def Real_T_init_def Binary_init_def
      Subset_init_def)

theorem construction_accepts_invalid_witness:
  "(Inr :: real \<Rightarrow> error + real) 3 = Inr 3 \<and> (Inr :: real \<Rightarrow> error + real) 2 = Inr 2 \<and>
   (Inr :: real \<Rightarrow> error + real) 1 = Inr 1 \<and> (2::real) < 3 \<and> (-1::int) \<le> 0 \<and>
   ((4::int) < 0 \<or> int (length ''abc'') < 4) \<and>
   Real_Normal_init Inr (3::real) 2 1 5 None =
     Inr \<lparr>Real_Normal.min_value = 3, max_value = 2, default_value = 1, spread = 5,
          clamp = None\<rparr> \<and>
   Real_T_init Inr (3::real) 2 1 =
     Inr \<lparr>Real_T.min_value = 3, max_value = 2, default_value = 1\<rparr> \<and>
   Binary_init (-1) = Inr \<lparr>nbits = -1\<rparr> \<and>
   Subset_init ''abc'' 4 = Inr \<lparr>elements = ''abc'', size_field = 4\<rparr>"
proof -
  have f: "(Inr :: real \<Rightarrow> error + real) 3 = Inr 3" "(Inr :: real \<Rightarrow> error + real) 2 = Inr 2"
    "(Inr :: real \<Rightarrow> error + real) 1 = Inr 1"
    by simp_all
  have o: "(2::real) < 3" "(-1::int) \<le> 0" "(4::int) < 0 \<or> int (length ''abc'') < 4"
    by simp_all
  show ?thesis
    using f o
      construction_accepts_invalid [where to_float = "Inr :: real \<Rightarrow> error + real"
        and lo = 3 and hi = 2 and dv = 1 and a = 3 and b = 2 and d = 1 and n = "- 1"
        and k = 4 and es = "''abc''" and sp = 5 and cl = None]
    by simp
qed

section \<open>Real_Normal with the default clamp\<close>

text \<open>
  C10. A Real_Normal constructed with \<open>clamp = None\<close> raises TypeError on every call of
  \<open>rand\<close>, whatever the sample, when \<open>spread > 0\<close>; when \<open>spread \<le> 0\<close> the subscript is not
  evaluated and \<open>rand\<close> returns \<open>default_value\<close>, the float of the constructor's argument.
\<close>

theorem Real_Normal_default_clamp:
  assumes "Real_Normal_init to_float lo hi dv sp None = Inr T"
  shows "(sp > 0 \<longrightarrow> Real_Normal_rand T draw = Inl TypeError) \<and>
         (\<not> sp > 0 \<longrightarrow> Real_Normal_rand T draw = Inr (Real_Normal.default_value T)) \<and>
         to_float dv = Inr (Real_Normal.default_value T)"
proof -
  obtain a where a: "to_float lo = Inr a"
    using assms by (cases "to_float lo") (simp_all add: Real_Normal_init_def)
  obtain b where b: "to_float hi = Inr b"
    using assms a by (cases "to_float hi") (simp_all add: Real_Normal_init_def)
  obtain d where d: "to_float dv = Inr d"
    using assms a b by (cases "to_float dv") (simp_all add: Real_Normal_init_def)
  have T: "T = \<lparr>Real_Normal.min_value = a, max_value = b, default_value = d, spread = sp,
              clamp = None\<rparr>"
    using assms by (simp add: Real_Normal_init_def a b d)
  show ?thesis
    by (simp add: T d Real_Normal_rand_def)
qed


theorem Real_Normal_default_clamp_witness:
  "Real_Normal_init Inr (0::real) 1 (1/2) 5 None =
     Inr \<lparr>Real_Normal.min_value = 0, max_value = 1, default_value = 1/2, spread = 5,
          clamp = None\<rparr> \<and> (5::real) > 0 \<and>
   Real_Normal_rand \<lparr>Real_Normal.min_value = 0, max_value = 1, default_value = 1/2, spread = 5,
          clamp = None\<rparr> (3/4) = Inl TypeError \<and>
   Real_Normal_init Inr (0::real) 1 (1/2) 0 None =
     Inr \<lparr>Real_Normal.min_value = 0, max_value = 1, default_value = 1/2, spread = 0,
          clamp = None\<rparr> \<and> \<not> (0::real) > 0 \<and>
   Real_Normal_rand \<lparr>Real_Normal.min_value = 0, max_value = 1, default_value = 1/2, spread = 0,
          clamp = None\<rparr> (3/4) = Inr (1/2)"
proof -
  let ?N = "\<lparr>Real_Normal.min_value = 0, max_value = 1, default_value = 1/2, spread = 5,
          clamp = None\<rparr>"
  let ?M = "\<lparr>Real_Normal.min_value = 0, max_value = 1, default_value = 1/2, spread = 0,
          clamp = None\<rparr>"
  have i: "Real_Normal_init Inr (0::real) 1 (1/2) 5 None = Inr ?N"
    by (simp add: Real_Normal_init_def)
  have j: "Real_Normal_init Inr (0::real) 1 (1/2) 0 None = Inr ?M"
    by (simp add: Real_Normal_init_def)
  have p: "(5::real) > 0" and q: "\<not> (0::real) > 0"
    by simp_all
  have r: "Real_Normal_rand ?N (3/4) = Inl TypeError"
    using Real_Normal_default_clamp [OF i, of "3/4"] p by blast
  have t: "Real_Normal_rand ?M (3/4) = Inr (Real_Normal.default_value ?M)"
    using Real_Normal_default_clamp [OF j, of "3/4"] q by blast
  have u: "Real_Normal_rand ?M (3/4) = Inr (1/2)"
    by (simp only: t Real_Normal.select_convs)
  from i p r j q u show ?thesis
    by (intro conjI)
qed

end
